theory Spec2Isabelle
  imports Complex_Main
begin

section \<open>Column types\<close>

text \<open>
  \<open>src/products/entities/product.entity.ts\<close> declares the columns of the table:
  \<open>id\<close>, \<open>stock\<close> and \<open>version\<close> are 32-bit integers, \<open>name\<close> is a
  \<open>varchar(255)\<close>, \<open>price\<close> is a \<open>numeric(12, 2)\<close>. A statement that carries a
  value its column cannot hold is refused by the database, and the query fails.
\<close>

definition in_int4 :: "int \<Rightarrow> bool" where
  "in_int4 x = (- 2147483648 \<le> x \<and> x \<le> 2147483647)"

text \<open>
  A price as a request or an entity object carries it: a number, or the string in
  which the driver hands out a stored \<open>numeric(12, 2)\<close> and in which the API
  therefore returns it. \<open>Decimal c\<close> is the string for \<open>c\<close> hundredths, so
  \<open>Decimal 1000\<close> is \<open>"10.00"\<close>. A number and a string are never equal under
  \<open>===\<close>. Strings of any other form are not part of the embedding.
\<close>

datatype price_value = Number rat | Decimal int

text \<open>The column rounds to two decimals, a tie away from zero.\<close>

definition round_half_away :: "rat \<Rightarrow> int" where
  "round_half_away x = (if 0 \<le> x then \<lfloor>x + 1 / 2\<rfloor> else - \<lfloor>- x + 1 / 2\<rfloor>)"

text \<open>
  The hundredths that the column stores for a price, or \<open>None\<close> when the rounded
  value has more than ten digits before the decimal point.
\<close>

fun to_numeric :: "price_value \<Rightarrow> int option" where
  "to_numeric (Number x) =
     (let c = round_half_away (x * 100) in if \<bar>c\<bar> < 10 ^ 12 then Some c else None)"
| "to_numeric (Decimal c) = (if \<bar>c\<bar> < 10 ^ 12 then Some c else None)"

text \<open>The name, the price and the stock that the columns can hold.\<close>

definition fits_columns :: "string \<Rightarrow> price_value \<Rightarrow> int \<Rightarrow> bool" where
  "fits_columns n pr s = (length n \<le> 255 \<and> to_numeric pr \<noteq> None \<and> in_int4 s)"

section \<open>The entity and the data transfer objects\<close>

text \<open>
  Modelled from the spec: the class \<open>CreateProductDto\<close>
  (\<open>dto/create-product.dto.ts\<close>), which the service imports and which is not among
  the source files. The specification gives \<open>create\<close> the inputs name, price and
  stock; \<open>createProduct\<close> of \<open>scripts/purchase-demo.ts\<close> sends the same three
  fields.
\<close>

record CreateProductDto =
  name :: string
  price :: price_value
  stock :: int

text \<open>
  \<open>src/products/dto/update-product.dto.ts\<close>: four plain fields, no validation
  decorator on any of them. The client sends the version it last read.
\<close>

record UpdateProductDto =
  name :: string
  price :: price_value
  stock :: int
  version :: int

text \<open>
  \<open>src/products/entities/product.entity.ts\<close>. The column \<open>id\<close> is called
  \<open>id_col\<close> here, \<open>id\<close> being the identity function of HOL; the two time stamps
  are readings of the database clock, counted in ticks. The same columns occur twice:
  a \<open>Row\<close> of the table holds the price in hundredths, a \<open>Product\<close> is the entity
  object that the service handles, whose price is a \<open>price_value\<close>.
\<close>

record 'p product_columns =
  id_col :: int
  name :: string
  price :: 'p
  stock :: int
  version :: int
  createdAt :: nat
  updatedAt :: nat

type_synonym Product = "price_value product_columns"

type_synonym Row = "int product_columns"

text \<open>The entity object that a query builds from a row.\<close>

definition hydrate :: "Row \<Rightarrow> Product" where
  "hydrate row = \<lparr>id_col = id_col row, name = name row, price = Decimal (price row),
                   stock = stock row, version = version row,
                   createdAt = createdAt row, updatedAt = updatedAt row\<rparr>"

text \<open>
  The exceptions the operations raise. \<open>NotFoundException\<close> and
  \<open>ConflictException\<close> are thrown by \<open>ProductsService\<close>; \<open>QueryFailedError\<close> is
  what a repository call throws when the database refuses its statement;
  \<open>ValidationError\<close> is the specification's name for the rejection of malformed
  input.
\<close>

datatype error = NotFoundException | ConflictException | QueryFailedError | ValidationError

section \<open>The repository\<close>

text \<open>
  The repository of \<open>Product\<close> is the table \<open>products\<close> and the sequence that
  \<open>@PrimaryGeneratedColumn\<close> draws the next id from. TypeORM is a dependency of the
  service, not part of it: the calls \<open>create\<close>, \<open>findOne\<close>, \<open>merge\<close> and \<open>save\<close>
  are embedded by what the library does for the decorators of the entity. The order
  in which \<open>find()\<close> lists the rows is the order of a scan of the table, which
  nothing below depends on; \<open>findAll\<close> is not embedded.
\<close>

record Repository =
  table :: "Row list"
  sequence :: int

definition empty_repo :: Repository where
  "empty_repo = \<lparr>table = [], sequence = 1\<rparr>"

text \<open>The row that the table holds under an id.\<close>

definition lookup :: "Repository \<Rightarrow> int \<Rightarrow> Row option" where
  "lookup r i = find (\<lambda>x. id_col x = i) (table r)"

text \<open>
  \<open>repo.findOne({ where: { id } })\<close>: the query fails for an id that is no 32-bit
  integer; otherwise it returns the entity of the row, if there is one.
\<close>

definition repo_findOne :: "Repository \<Rightarrow> int \<Rightarrow> error + Product option" where
  "repo_findOne r i =
     (if in_int4 i then Inr (map_option hydrate (lookup r i)) else Inl QueryFailedError)"

text \<open>
  An entity handed to \<open>save\<close> either has no primary key yet (the result of
  \<open>repo.create(dto)\<close>) or was read from the table (the result of \<open>repo.merge\<close> on
  an entity that \<open>findOne\<close> returned).
\<close>

datatype entity = Draft CreateProductDto | Loaded Product

definition repo_create :: "CreateProductDto \<Rightarrow> entity" where
  "repo_create dto = Draft dto"

text \<open>\<open>repo.merge(existing, {name, price, stock})\<close> overwrites the three fields.\<close>

definition repo_merge :: "Product \<Rightarrow> string \<Rightarrow> price_value \<Rightarrow> int \<Rightarrow> Product" where
  "repo_merge existing n pr s = existing\<lparr>name := n, price := pr, stock := s\<rparr>"

text \<open>
  \<open>INSERT\<close> of the values \<open>n\<close>, \<open>pr\<close>, \<open>s\<close> under the id \<open>i\<close> at clock reading
  \<open>now\<close>: \<open>@VersionColumn\<close> starts at 1 and both date columns are set. The row
  holds the rounded price; the entity that \<open>save\<close> returns keeps the price it was
  given. The statement fails, and nothing is written, when a value does not fit its
  column.
\<close>

definition insert_row ::
  "nat \<Rightarrow> Repository \<Rightarrow> int \<Rightarrow> string \<Rightarrow> price_value \<Rightarrow> int \<Rightarrow> (error + Product) \<times> Repository" where
  "insert_row now r i n pr s =
     (case to_numeric pr of
        None \<Rightarrow> (Inl QueryFailedError, r)
      | Some c \<Rightarrow>
          if length n \<le> 255 \<and> in_int4 s \<and> in_int4 i
          then (Inr \<lparr>id_col = i, name = n, price = pr, stock = s, version = 1,
                      createdAt = now, updatedAt = now\<rparr>,
                r\<lparr>table := table r @
                       [\<lparr>id_col = i, name = n, price = c, stock = s, version = 1,
                         createdAt = now, updatedAt = now\<rparr>]\<rparr>)
          else (Inl QueryFailedError, r))"

text \<open>
  \<open>repo.save(entity)\<close> at clock reading \<open>now\<close>.

  A draft is inserted under the next id of the sequence.

  For a loaded entity \<open>save\<close> reads the row of its id and compares the columns. When
  name, price and stock are the ones of the row, nothing is written and the entity is
  returned as it is. Otherwise the row is updated: it takes the name, the rounded
  price and the stock of the entity, \<open>@VersionColumn\<close> is incremented and
  \<open>@UpdateDateColumn\<close> is set; the entity is returned with the new version and date
  and with the price it carried. The update fails, and nothing is written, when a value
  does not fit its column. An entity whose row is gone would be inserted under its
  id; the service never saves one, it saves what it has just read.
\<close>

fun repo_save :: "nat \<Rightarrow> Repository \<Rightarrow> entity \<Rightarrow> (error + Product) \<times> Repository" where
  "repo_save now r (Draft dto) =
     (case insert_row now r (sequence r) (CreateProductDto.name dto)
             (CreateProductDto.price dto) (CreateProductDto.stock dto) of
        (Inl e, r') \<Rightarrow> (Inl e, r')
      | (Inr p, r') \<Rightarrow> (Inr p, r'\<lparr>sequence := sequence r + 1\<rparr>))"
| "repo_save now r (Loaded e) =
     (case lookup r (id_col e) of
        None \<Rightarrow> insert_row now r (id_col e) (name e) (price e) (stock e)
      | Some row \<Rightarrow>
          if name e = name row \<and> price e = Decimal (price row) \<and> stock e = stock row
          then (Inr e, r)
          else
            (case to_numeric (price e) of
               None \<Rightarrow> (Inl QueryFailedError, r)
             | Some c \<Rightarrow>
                 if length (name e) \<le> 255 \<and> in_int4 (stock e) \<and> in_int4 (version row + 1)
                 then (Inr (e\<lparr>version := version row + 1, updatedAt := now\<rparr>),
                       r\<lparr>table := map (\<lambda>x. if id_col x = id_col e
                                               then row\<lparr>name := name e, price := c, stock := stock e,
                                                        version := version row + 1, updatedAt := now\<rparr>
                                               else x) (table r)\<rparr>)
                 else (Inl QueryFailedError, r)))"

section \<open>ProductsService\<close>

text \<open>
  Every method takes the repository and returns it with its result; a method that
  throws returns the exception as \<open>Inl\<close>, and an exception of a repository call
  passes through. The methods that write take the clock reading \<open>now\<close> of their
  \<open>save\<close>.
\<close>

definition create :: "nat \<Rightarrow> Repository \<Rightarrow> CreateProductDto \<Rightarrow> (error + Product) \<times> Repository" where
  "create now r dto =
     (let entity = repo_create dto
      in repo_save now r entity)"

definition findOne :: "Repository \<Rightarrow> int \<Rightarrow> (error + Product) \<times> Repository" where
  "findOne r i =
     (case repo_findOne r i of
        Inl e \<Rightarrow> (Inl e, r)
      | Inr None \<Rightarrow> (Inl NotFoundException, r)
      | Inr (Some entity) \<Rightarrow> (Inr entity, r))"

definition update :: "nat \<Rightarrow> Repository \<Rightarrow> int \<Rightarrow> UpdateProductDto \<Rightarrow> (error + Product) \<times> Repository" where
  "update now r i dto =
     (case repo_findOne r i of
        Inl e \<Rightarrow> (Inl e, r)
      | Inr None \<Rightarrow> (Inl NotFoundException, r)
      | Inr (Some existing) \<Rightarrow>
          if UpdateProductDto.version dto \<noteq> version existing
          then (Inl ConflictException, r)
          else
            (let entity = repo_merge existing (UpdateProductDto.name dto)
                            (UpdateProductDto.price dto) (UpdateProductDto.stock dto)
             in repo_save now r (Loaded entity)))"

text \<open>
  Modelled from the spec: the service method behind \<open>POST /products/:id/purchase\<close>,
  which is not among the source files. Section 4.1 of the specification: a quantity
  that is not positive fails with \<open>ValidationError\<close>; an unknown id fails with
  \<open>NotFoundError\<close>; a stock below the quantity fails with \<open>ConflictError\<close> and nothing
  is written; otherwise the stock of the record is decremented by the quantity, its
  version is incremented and its \<open>updatedAt\<close> is refreshed, and the updated record is
  the result. The row lock makes the whole call one step on the repository.
\<close>

definition purchase :: "nat \<Rightarrow> Repository \<Rightarrow> int \<Rightarrow> int \<Rightarrow> (error + Row) \<times> Repository" where
  "purchase now r i quantity =
     (if quantity \<le> 0 then (Inl ValidationError, r)
      else
        (case lookup r i of
           None \<Rightarrow> (Inl NotFoundException, r)
         | Some current \<Rightarrow>
             if stock current < quantity
             then (Inl ConflictException, r)
             else
               (let p = current\<lparr>stock := stock current - quantity,
                                version := version current + 1, updatedAt := now\<rparr>
                in (Inr p, r\<lparr>table := map (\<lambda>x. if id_col x = i then p else x) (table r)\<rparr>))))"

section \<open>Invariants of the table\<close>


text \<open>No row has a negative stock.\<close>

definition stock_ok :: "Repository \<Rightarrow> bool" where
  "stock_ok r = list_all (\<lambda>p. 0 \<le> stock p) (table r)"

section \<open>The demonstration script\<close>

text \<open>
  Step 1 of \<open>main\<close> in \<open>scripts/purchase-demo.ts\<close> creates the product
  \<open>createProduct('LockDemo', 10, 5)\<close> in an empty table; \<open>demo_row\<close> is the row the
  table then holds when the clock reads 0.
\<close>

definition demo_dto :: CreateProductDto where
  "demo_dto = \<lparr>CreateProductDto.name = ''LockDemo'', CreateProductDto.price = Number 10,
                CreateProductDto.stock = 5\<rparr>"

definition demo_row :: Row where
  "demo_row = \<lparr>id_col = 1, name = ''LockDemo'', price = 1000, stock = 5, version = 1,
                createdAt = 0, updatedAt = 0\<rparr>"

definition demo_repo :: Repository where
  "demo_repo = snd (create 0 empty_repo demo_dto)"

text \<open>
  Step 2 reads the product and sends it back, \<open>{...fresh, version: staleVersion}\<close>,
  with the version \<open>(fresh.version ?? 1) - 1\<close>, which is stale. \<open>echo_dto\<close> is the
  same request with the version as read.
\<close>

definition stale_dto :: UpdateProductDto where
  "stale_dto = \<lparr>UpdateProductDto.name = name (hydrate demo_row),
                 UpdateProductDto.price = price (hydrate demo_row),
                 UpdateProductDto.stock = stock (hydrate demo_row),
                 UpdateProductDto.version = version (hydrate demo_row) - 1\<rparr>"


section \<open>Lemmas on the repository\<close>

declare to_numeric.simps [simp del]

lemma find_Some_sat: "find P xs = Some e \<Longrightarrow> P e \<and> e \<in> set xs"
  by (induction xs) (auto split: if_splits)

lemma find_map_preserving:
  "(\<And>x. P (f x) = P x) \<Longrightarrow> find P (map f xs) = map_option f (find P xs)"
  by (induction xs) auto

lemma lookup_id: "lookup r i = Some row \<Longrightarrow> id_col row = i"
  using find_Some_sat [of "\<lambda>x. id_col x = i" "table r" row] by (simp add: lookup_def)

lemma lookup_replace:
  assumes "id_col q = i"
  shows "lookup (r\<lparr>table := map (\<lambda>x. if id_col x = i then q else x) (table r)\<rparr>) j =
           map_option (\<lambda>x. if id_col x = i then q else x) (lookup r j)"
proof -
  have "find (\<lambda>x. id_col x = j) (map (\<lambda>x. if id_col x = i then q else x) (table r)) =
          map_option (\<lambda>x. if id_col x = i then q else x) (find (\<lambda>x. id_col x = j) (table r))"
    by (rule find_map_preserving) (simp add: assms)
  then show ?thesis by (simp add: lookup_def)
qed

lemma repo_findOne_Some:
  "repo_findOne r i = Inr (Some e) \<longleftrightarrow> in_int4 i \<and> (\<exists>row. lookup r i = Some row \<and> e = hydrate row)"
  by (auto simp: repo_findOne_def)

lemma repo_findOne_None:
  "repo_findOne r i = Inr None \<longleftrightarrow> in_int4 i \<and> lookup r i = None"
  by (auto simp: repo_findOne_def)





text \<open>\<open>create\<close> with its two repository calls unfolded.\<close>

lemma create_unfold:
  "create now r dto =
     (case to_numeric (CreateProductDto.price dto) of
        None \<Rightarrow> (Inl QueryFailedError, r)
      | Some c \<Rightarrow>
          if length (CreateProductDto.name dto) \<le> 255 \<and> in_int4 (CreateProductDto.stock dto)
             \<and> in_int4 (sequence r)
          then (Inr \<lparr>id_col = sequence r, name = CreateProductDto.name dto,
                      price = CreateProductDto.price dto, stock = CreateProductDto.stock dto,
                      version = 1, createdAt = now, updatedAt = now\<rparr>,
                r\<lparr>table := table r @
                       [\<lparr>id_col = sequence r, name = CreateProductDto.name dto,
                         price = c, stock = CreateProductDto.stock dto,
                         version = 1, createdAt = now, updatedAt = now\<rparr>],
                   sequence := sequence r + 1\<rparr>)
          else (Inl QueryFailedError, r))"
  by (auto simp: create_def repo_create_def insert_row_def split: option.splits)

text \<open>
  \<open>update\<close> with its repository calls unfolded, for an id whose row is \<open>row\<close>.
\<close>

lemma update_unfold:
  assumes "in_int4 i" and "lookup r i = Some row"
  shows "update now r i dto =
     (if UpdateProductDto.version dto \<noteq> version row then (Inl ConflictException, r)
      else if UpdateProductDto.name dto = name row
              \<and> UpdateProductDto.price dto = Decimal (price row)
              \<and> UpdateProductDto.stock dto = stock row
      then (Inr (hydrate row), r)
      else
        (case to_numeric (UpdateProductDto.price dto) of
           None \<Rightarrow> (Inl QueryFailedError, r)
         | Some c \<Rightarrow>
             if length (UpdateProductDto.name dto) \<le> 255 \<and> in_int4 (UpdateProductDto.stock dto)
                \<and> in_int4 (version row + 1)
             then (Inr \<lparr>id_col = i, name = UpdateProductDto.name dto,
                         price = UpdateProductDto.price dto, stock = UpdateProductDto.stock dto,
                         version = version row + 1, createdAt = createdAt row, updatedAt = now\<rparr>,
                   r\<lparr>table := map (\<lambda>x. if id_col x = i
                                           then \<lparr>id_col = i, name = UpdateProductDto.name dto,
                                                  price = c, stock = UpdateProductDto.stock dto,
                                                  version = version row + 1,
                                                  createdAt = createdAt row, updatedAt = now\<rparr>
                                           else x) (table r)\<rparr>)
             else (Inl QueryFailedError, r)))"
proof -
  have id: "id_col row = i" using assms(2) by (rule lookup_id)
  have found: "repo_findOne r i = Inr (Some (hydrate row))"
    using assms by (simp add: repo_findOne_def)
  show ?thesis
    using assms(2) id
    by (auto simp: update_def found repo_merge_def hydrate_def Let_def split: option.splits)
qed

text \<open>The prices of the examples, as the column stores them.\<close>

lemma to_numeric_demo: "to_numeric (Number 10) = Some 1000"
  by code_simp




lemma in_int4_1: "in_int4 1"
  by (simp add: in_int4_def)

lemma demo_repo_eq: "demo_repo = \<lparr>table = [demo_row], sequence = 2\<rparr>"
  by (simp add: demo_repo_def create_unfold to_numeric_demo in_int4_def empty_repo_def
      demo_dto_def demo_row_def)

lemma demo_lookup: "lookup demo_repo 1 = Some demo_row"
  by (simp add: demo_repo_eq lookup_def demo_row_def)

lemma demo_findOne: "repo_findOne demo_repo 1 = Inr (Some (hydrate demo_row))"
  by (simp add: repo_findOne_def demo_lookup in_int4_def)

section \<open>Optimistic update\<close>

text \<open>
  C1. When the id exists and the version the caller sends differs from the version of
  the stored row, \<open>update\<close> fails with \<open>ConflictException\<close> and returns the repository
  it was given: the table, hence every column of the row, is as before the call.
\<close>

theorem update_stale_version_rejected:
  assumes "repo_findOne r i = Inr (Some existing)"
      and "UpdateProductDto.version dto \<noteq> version existing"
  shows "update now r i dto = (Inl ConflictException, r)
       \<and> repo_findOne (snd (update now r i dto)) i = Inr (Some existing)"
  using assms by (simp add: update_def)

theorem update_stale_version_rejected_witness:
  "UpdateProductDto.version stale_dto \<noteq> version (hydrate demo_row)
   \<and> update 7 demo_repo 1 stale_dto = (Inl ConflictException, demo_repo)
   \<and> repo_findOne (snd (update 7 demo_repo 1 stale_dto)) 1 = Inr (Some (hydrate demo_row))"
proof -
  have stale: "UpdateProductDto.version stale_dto \<noteq> version (hydrate demo_row)"
    by (simp add: stale_dto_def)
  from update_stale_version_rejected [OF demo_findOne stale, of 7] stale
  show ?thesis by blast
qed







section \<open>Unknown ids\<close>

text \<open>
  C6, as amended. For an id within the range of the 32-bit id column that no row has,
  \<open>findOne\<close> and \<open>update\<close> both fail with \<open>NotFoundException\<close> and leave the
  repository as it was; and \<open>findOne\<close> returns the repository unchanged for every
  id, found or not.
\<close>

theorem unknown_id_not_found:
  assumes "in_int4 i" and "lookup r i = None"
  shows "findOne r i = (Inl NotFoundException, r)
       \<and> update now r i dto = (Inl NotFoundException, r)
       \<and> (\<forall>j. snd (findOne r j) = r)"
proof -
  have none: "repo_findOne r i = Inr None"
    using assms by (simp add: repo_findOne_def)
  have "snd (findOne r j) = r" for j
    by (simp add: findOne_def split: sum.splits option.splits)
  with none show ?thesis
    by (simp add: findOne_def update_def)
qed

theorem unknown_id_not_found_witness:
  "in_int4 2 \<and> lookup demo_repo 2 = None
   \<and> findOne demo_repo 2 = (Inl NotFoundException, demo_repo)
   \<and> update 4 demo_repo 2 \<lparr>UpdateProductDto.name = ''Demo+'', UpdateProductDto.price = Number 12,
        UpdateProductDto.stock = 5, UpdateProductDto.version = 1\<rparr> = (Inl NotFoundException, demo_repo)
   \<and> snd (findOne demo_repo 1) = demo_repo"
proof -
  have i: "in_int4 2" by (simp add: in_int4_def)
  have none: "lookup demo_repo 2 = None"
    by (simp add: demo_repo_eq lookup_def demo_row_def)
  from unknown_id_not_found [OF i none] i none show ?thesis by blast
qed

text \<open>
  C6 as the specification words it fails: no row has the id 2147483648, and
  \<open>findOne\<close> and \<open>update\<close> fail with \<open>QueryFailedError\<close> there, not with
  \<open>NotFoundException\<close>.
\<close>

theorem unknown_id_out_of_range_counterexample:
  "lookup demo_repo 2147483648 = None
   \<and> findOne demo_repo 2147483648 = (Inl QueryFailedError, demo_repo)
   \<and> update 4 demo_repo 2147483648 \<lparr>UpdateProductDto.name = ''Demo+'', UpdateProductDto.price = Number 12,
        UpdateProductDto.stock = 5, UpdateProductDto.version = 1\<rparr> = (Inl QueryFailedError, demo_repo)
   \<and> QueryFailedError \<noteq> NotFoundException"
  by (simp add: demo_repo_eq lookup_def demo_row_def findOne_def update_def repo_findOne_def in_int4_def)

section \<open>Creation\<close>

text \<open>
  C10. Every product that \<open>create\<close> returns has the version 1; and \<open>create\<close>
  does return a product when the values fit their columns and the sequence has an id
  left.
\<close>

theorem create_initial_version:
  "(\<forall>p. fst (create now r dto) = Inr p \<longrightarrow> version p = 1)
   \<and> (fits_columns (CreateProductDto.name dto) (CreateProductDto.price dto) (CreateProductDto.stock dto)
        \<and> in_int4 (sequence r)
      \<longrightarrow> (\<exists>p. fst (create now r dto) = Inr p \<and> version p = 1))"
  by (auto simp: create_unfold fits_columns_def split: option.splits if_splits)

theorem create_initial_version_witness:
  "fst (create 0 empty_repo demo_dto)
     = Inr \<lparr>id_col = 1, name = ''LockDemo'', price = Number 10, stock = 5, version = 1,
             createdAt = 0, updatedAt = 0\<rparr>
   \<and> version \<lparr>id_col = 1, name = ''LockDemo'', price = Number 10, stock = 5, version = 1,
             createdAt = 0, updatedAt = (0::nat)\<rparr> = 1"
proof -
  have res: "fst (create 0 empty_repo demo_dto)
     = Inr \<lparr>id_col = 1, name = ''LockDemo'', price = Number 10, stock = 5, version = 1,
             createdAt = 0, updatedAt = 0\<rparr>"
    by (simp add: create_unfold demo_dto_def to_numeric_demo empty_repo_def in_int4_def)
  with create_initial_version [of 0 empty_repo demo_dto] show ?thesis
    by blast
qed




section \<open>Purchase\<close>

text \<open>
  C5. \<open>purchase\<close> with a quantity that is not positive fails with \<open>ValidationError\<close>;
  with a positive quantity above the stock of the row it fails with
  \<open>ConflictException\<close>; in both cases the repository is returned as it was. With a
  positive quantity within the stock it returns the row with the stock decremented by
  the quantity, the version incremented by one and \<open>updatedAt\<close> set to the clock
  reading, and that row is the one found under the id afterwards.
\<close>

theorem purchase_contract:
  "(quantity \<le> 0 \<longrightarrow> purchase now r i quantity = (Inl ValidationError, r))
   \<and> (0 < quantity \<and> lookup r i = Some current \<and> stock current < quantity \<longrightarrow>
        purchase now r i quantity = (Inl ConflictException, r))
   \<and> (0 < quantity \<and> lookup r i = Some current \<and> quantity \<le> stock current \<longrightarrow>
        (\<exists>p r'. purchase now r i quantity = (Inr p, r')
           \<and> stock p = stock current - quantity
           \<and> version p = version current + 1
           \<and> updatedAt p = now
           \<and> lookup r' i = Some p))"
proof (intro conjI impI)
  assume "quantity \<le> 0"
  then show "purchase now r i quantity = (Inl ValidationError, r)"
    by (simp add: purchase_def)
next
  assume "0 < quantity \<and> lookup r i = Some current \<and> stock current < quantity"
  then show "purchase now r i quantity = (Inl ConflictException, r)"
    by (simp add: purchase_def)
next
  assume a: "0 < quantity \<and> lookup r i = Some current \<and> quantity \<le> stock current"
  let ?p = "current\<lparr>stock := stock current - quantity,
                     version := version current + 1, updatedAt := now\<rparr>"
  let ?r' = "r\<lparr>table := map (\<lambda>x. if id_col x = i then ?p else x) (table r)\<rparr>"
  from a have found: "lookup r i = Some current" by simp
  have idp: "id_col ?p = i" using lookup_id [OF found] by simp
  have "purchase now r i quantity = (Inr ?p, ?r')"
    using a by (simp add: purchase_def Let_def)
  moreover have "lookup ?r' i = Some ?p"
    using lookup_replace [OF idp, of r i] found lookup_id [OF found] by simp
  ultimately show "\<exists>p r'. purchase now r i quantity = (Inr p, r')
           \<and> stock p = stock current - quantity
           \<and> version p = version current + 1
           \<and> updatedAt p = now
           \<and> lookup r' i = Some p"
    by simp
qed

theorem purchase_contract_witness:
  "purchase 2 demo_repo 1 0 = (Inl ValidationError, demo_repo)
   \<and> purchase 2 demo_repo 1 999 = (Inl ConflictException, demo_repo)
   \<and> (\<exists>p r'. purchase 2 demo_repo 1 2 = (Inr p, r')
           \<and> stock p = 3 \<and> version p = 2 \<and> updatedAt p = 2
           \<and> lookup r' 1 = Some p)"
  using purchase_contract [of 0 2 demo_repo 1 demo_row]
    purchase_contract [of 999 2 demo_repo 1 demo_row]
    purchase_contract [of 2 2 demo_repo 1 demo_row]
    demo_lookup
  by (simp add: demo_row_def)

section \<open>Stock\<close>

lemma stock_ok_replace:
  "stock_ok r \<Longrightarrow> 0 \<le> stock q \<Longrightarrow>
   stock_ok (r\<lparr>table := map (\<lambda>x. if id_col x = i then q else x) (table r)\<rparr>)"
  by (auto simp: stock_ok_def list_all_iff)

lemma stock_ok_create:
  "stock_ok r \<Longrightarrow> 0 \<le> CreateProductDto.stock dto \<Longrightarrow> stock_ok (snd (create now r dto))"
  by (auto simp: create_unfold stock_ok_def split: option.splits)

lemma stock_ok_update:
  assumes "stock_ok r" and "0 \<le> UpdateProductDto.stock dto"
  shows "stock_ok (snd (update now r i dto))"
proof (cases "repo_findOne r i")
  case (Inl e)
  with assms show ?thesis by (simp add: update_def)
next
  case (Inr found)
  show ?thesis
  proof (cases found)
    case None
    with Inr assms show ?thesis by (simp add: update_def)
  next
    case (Some existing)
    with Inr obtain row where i: "in_int4 i" and row: "lookup r i = Some row"
      by (auto simp: repo_findOne_Some)
    show ?thesis
      using assms stock_ok_replace [OF assms(1), of _ i]
      by (auto simp: update_unfold [OF i row] split: option.splits)
  qed
qed

lemma stock_ok_purchase:
  assumes "stock_ok r"
  shows "stock_ok (snd (purchase now r i q))"
proof (cases "lookup r i")
  case None
  with assms show ?thesis by (simp add: purchase_def)
next
  case (Some current)
  show ?thesis
  proof (cases "0 < q \<and> q \<le> stock current")
    case False
    with Some assms show ?thesis by (auto simp: purchase_def)
  next
    case True
    let ?p = "current\<lparr>stock := stock current - q, version := version current + 1, updatedAt := now\<rparr>"
    from True have "0 \<le> stock ?p" by simp
    from stock_ok_replace [OF assms this, of i] Some True show ?thesis
      by (simp add: purchase_def Let_def)
  qed
qed

text \<open>
  C2, as amended. \<open>create\<close> and \<open>update\<close> store the stock they are given without
  looking at it. In a table without negative stock, \<open>create\<close> and \<open>update\<close> called
  with a stock that is not negative, \<open>purchase\<close> called with any quantity, and
  \<open>findOne\<close> leave a table without negative stock.
\<close>

theorem stock_never_negative_given_valid_stock:
  assumes "stock_ok r"
  shows "(0 \<le> CreateProductDto.stock cdto \<longrightarrow> stock_ok (snd (create now r cdto)))
       \<and> (0 \<le> UpdateProductDto.stock udto \<longrightarrow> stock_ok (snd (update now r i udto)))
       \<and> stock_ok (snd (purchase now r i q))
       \<and> stock_ok (snd (findOne r i))"
proof -
  have "stock_ok (snd (findOne r i))"
    using assms by (simp add: findOne_def split: sum.splits option.splits)
  with stock_ok_create [OF assms] stock_ok_update [OF assms] stock_ok_purchase [OF assms]
  show ?thesis by blast
qed

theorem stock_never_negative_given_valid_stock_witness:
  "stock_ok demo_repo
   \<and> stock_ok (snd (create 1 demo_repo \<lparr>CreateProductDto.name = ''Demo'', CreateProductDto.price = Number 10,
                                         CreateProductDto.stock = 0\<rparr>))
   \<and> stock_ok (snd (update 1 demo_repo 1 \<lparr>UpdateProductDto.name = ''Demo+'', UpdateProductDto.price = Number 12,
                        UpdateProductDto.stock = 5, UpdateProductDto.version = 1\<rparr>))
   \<and> stock_ok (snd (purchase 1 demo_repo 1 999))
   \<and> stock_ok (snd (purchase 1 demo_repo 1 5))"
proof -
  have ok: "stock_ok demo_repo"
    by (simp add: demo_repo_eq stock_ok_def demo_row_def)
  from stock_never_negative_given_valid_stock [OF ok, of
      "\<lparr>CreateProductDto.name = ''Demo'', CreateProductDto.price = Number 10, CreateProductDto.stock = 0\<rparr>" 1
      "\<lparr>UpdateProductDto.name = ''Demo+'', UpdateProductDto.price = Number 12,
        UpdateProductDto.stock = 5, UpdateProductDto.version = 1\<rparr>" 1 999]
    stock_never_negative_given_valid_stock [OF ok, of
      "\<lparr>CreateProductDto.name = ''Demo'', CreateProductDto.price = Number 10, CreateProductDto.stock = 0\<rparr>" 1
      "\<lparr>UpdateProductDto.name = ''Demo+'', UpdateProductDto.price = Number 12,
        UpdateProductDto.stock = 5, UpdateProductDto.version = 1\<rparr>" 1 5]
    ok show ?thesis by simp
qed

text \<open>
  C2 as the specification words it fails: the table of the demonstration has no
  negative stock, and \<open>update\<close> with the current version and the stock -5 succeeds and
  stores -5.
\<close>

theorem stock_never_negative_counterexample:
  "stock_ok demo_repo
   \<and> update 1 demo_repo 1 \<lparr>UpdateProductDto.name = ''LockDemo'', UpdateProductDto.price = Number 10,
        UpdateProductDto.stock = - 5, UpdateProductDto.version = 1\<rparr>
     = (Inr \<lparr>id_col = 1, name = ''LockDemo'', price = Number 10, stock = - 5, version = 2,
              createdAt = 0, updatedAt = 1\<rparr>,
        \<lparr>table = [\<lparr>id_col = 1, name = ''LockDemo'', price = 1000, stock = - 5, version = 2,
                    createdAt = 0, updatedAt = 1\<rparr>], sequence = 2\<rparr>)
   \<and> \<not> stock_ok (snd (update 1 demo_repo 1 \<lparr>UpdateProductDto.name = ''LockDemo'',
        UpdateProductDto.price = Number 10, UpdateProductDto.stock = - 5, UpdateProductDto.version = 1\<rparr>))"
  by (simp add: update_unfold [OF in_int4_1 demo_lookup] to_numeric_demo)
     (simp add: demo_repo_eq demo_row_def stock_ok_def in_int4_def)

section \<open>Columns that never change\<close>

lemma replace_frame:
  assumes "lookup r j = Some p" and "lookup r i = Some cur"
      and "id_col q = i" and "createdAt q = createdAt cur"
  shows "\<exists>p'. lookup (r\<lparr>table := map (\<lambda>x. if id_col x = i then q else x) (table r)\<rparr>) j = Some p'
           \<and> id_col p' = id_col p \<and> createdAt p' = createdAt p"
proof (cases "id_col p = i")
  case False
  with lookup_replace [OF assms(3), of r j] assms(1) show ?thesis by simp
next
  case True
  have "id_col p = j" using assms(1) by (rule lookup_id)
  with True assms(1,2) have "p = cur" by simp
  with True assms(3,4) lookup_replace [OF assms(3), of r j] assms(1) show ?thesis by simp
qed

lemma update_frame:
  assumes "lookup r j = Some p"
  shows "\<exists>p'. lookup (snd (update now r i dto)) j = Some p'
           \<and> id_col p' = id_col p \<and> createdAt p' = createdAt p"
proof (cases "repo_findOne r i")
  case (Inl e)
  with assms show ?thesis by (simp add: update_def)
next
  case (Inr found)
  show ?thesis
  proof (cases found)
    case None
    with Inr assms show ?thesis by (simp add: update_def)
  next
    case (Some existing)
    with Inr obtain row where i: "in_int4 i" and row: "lookup r i = Some row"
      by (auto simp: repo_findOne_Some)
    show ?thesis
      using assms replace_frame [OF assms row, of _ ]
      by (auto simp: update_unfold [OF i row] split: option.splits)
  qed
qed

lemma purchase_frame:
  assumes "lookup r j = Some p"
  shows "\<exists>p'. lookup (snd (purchase now r i q)) j = Some p'
           \<and> id_col p' = id_col p \<and> createdAt p' = createdAt p"
proof (cases "lookup r i")
  case None
  with assms show ?thesis by (simp add: purchase_def)
next
  case (Some current)
  show ?thesis
  proof (cases "0 < q \<and> q \<le> stock current")
    case False
    with Some assms show ?thesis by (auto simp: purchase_def)
  next
    case True
    let ?e = "current\<lparr>stock := stock current - q, version := version current + 1, updatedAt := now\<rparr>"
    have "id_col ?e = i" and "createdAt ?e = createdAt current"
      using lookup_id [OF Some] by simp_all
    from replace_frame [OF assms Some this] Some True show ?thesis
      by (simp add: purchase_def Let_def)
  qed
qed

text \<open>
  C8. Whatever row the table holds under an id before an \<open>update\<close> or a
  \<open>purchase\<close> (of that id or of another, succeeding or failing), it holds a row
  with the same \<open>id\<close> and the same \<open>createdAt\<close> under that id afterwards.
\<close>

theorem id_and_createdAt_never_change:
  assumes "lookup r j = Some p"
  shows "(\<exists>p'. lookup (snd (update now r i dto)) j = Some p'
            \<and> id_col p' = id_col p \<and> createdAt p' = createdAt p)
       \<and> (\<exists>p'. lookup (snd (purchase now r i q)) j = Some p'
            \<and> id_col p' = id_col p \<and> createdAt p' = createdAt p)"
  using update_frame [OF assms] purchase_frame [OF assms] by blast

theorem id_and_createdAt_never_change_witness:
  "lookup demo_repo 1 = Some demo_row
   \<and> (\<exists>p'. lookup (snd (update 9 demo_repo 1 \<lparr>UpdateProductDto.name = ''Demo+'',
               UpdateProductDto.price = Number 12, UpdateProductDto.stock = 5,
               UpdateProductDto.version = 1\<rparr>)) 1 = Some p'
            \<and> id_col p' = 1 \<and> createdAt p' = 0)
   \<and> (\<exists>p'. lookup (snd (purchase 9 demo_repo 1 2)) 1 = Some p'
            \<and> id_col p' = 1 \<and> createdAt p' = 0)"
  using id_and_createdAt_never_change [OF demo_lookup, of 9 1
      "\<lparr>UpdateProductDto.name = ''Demo+'', UpdateProductDto.price = Number 12,
        UpdateProductDto.stock = 5, UpdateProductDto.version = 1\<rparr>" 2]
    demo_lookup
  by (simp add: demo_row_def)

end
